theory Spec2Isabelle
  imports Complex_Main "HOL-Library.Sublist"
begin

section \<open>Data model\<close>

text \<open>
  An element of a parsed XML document, as \<^verbatim>\<open>xml.etree.ElementTree\<close> presents it to
  the script: tag, attribute dictionary, the text before the first child (Python
  \<^verbatim>\<open>None\<close> when there is none) and the children in document order. The script never
  reads an element's tail, so it is left out. The selector \<open>elem_text\<close> is
  \<^verbatim>\<open>elem.text\<close>.
\<close>

datatype xml = Element (tag: string) (attrib: "(string \<times> string) list")
  (elem_text: "string option") (children: "xml list")

text \<open>
  The exceptions that leave a function of the script. \<^verbatim>\<open>ParserRejectedMarkup\<close> is what
  \<^verbatim>\<open>BeautifulSoup(..., 'html.parser')\<close> raises on markup its parser rejects.
\<close>

datatype exn = ParseError | ParserRejectedMarkup | TypeError | ValueError | OSError

text \<open>
  A response body is known to the script only through its two parsers, and either may
  raise: \<^verbatim>\<open>ET.fromstring\<close> gives the root element or raises (\<^verbatim>\<open>ParseError\<close> on a body
  it cannot parse, \<^verbatim>\<open>ValueError\<close> on an encoding it does not know);
  \<^verbatim>\<open>BeautifulSoup(response.content, 'html.parser')\<close> gives a document, of which the script
  reads the \<^verbatim>\<open>src\<close> attribute of every \<^verbatim>\<open>img\<close> tag in document order (\<open>None\<close> where
  a tag has none), or raises. Neither call is inside a \<^verbatim>\<open>try\<close>.
\<close>

datatype content = Content (fromstring: "exn + xml") (soup_img_srcs: "exn + string option list")

text \<open>
  \<^verbatim>\<open>requests.get\<close> followed by \<^verbatim>\<open>raise_for_status\<close>: a timeout, a connection error
  and a non-success status all raise \<^verbatim>\<open>RequestException\<close>.
\<close>

datatype response = RequestException | Response content

text \<open>One dictionary appended to \<^verbatim>\<open>article_details\<close>.\<close>

record article_record =
  pmcid :: "string option"
  title :: "string option"
  abstract :: "string option"
  captions :: "string option list"
  images :: "string list"

text \<open>
  What the script prints. The text of the caught exception is not modelled, and
  \<^verbatim>\<open>print\<close> itself is taken not to fail.
\<close>

datatype message =
    FailedPage "string option"
  | FailedIds
  | FailedBatch "string option list"
  | Retrieved "string option list"
  | Saved string

datatype event =
    Get string
  | Print message
  | WriteFile string "article_record list"

text \<open>
  The surroundings of one run: the reply to a request, by URL (a URL requested twice
  gets the same reply); the timestamp \<^verbatim>\<open>datetime.now().strftime(...)\<close> gives;
  whether \<^verbatim>\<open>open(filename, 'w')\<close> and the write to the file succeed.
\<close>

record world =
  requests_get :: "string \<Rightarrow> response"
  now :: string
  can_open :: "string \<Rightarrow> bool"

section \<open>Python and ElementTree primitives\<close>

text \<open>\<^verbatim>\<open>a in b\<close> on strings, and \<^verbatim>\<open>b.startswith(a)\<close>.\<close>

definition str_in :: "string \<Rightarrow> string \<Rightarrow> bool" where
  "str_in a b = sublist a b"

definition startswith :: "string \<Rightarrow> string \<Rightarrow> bool" where
  "startswith b a = prefix a b"

text \<open>\<^verbatim>\<open>str(n)\<close> for an integer, as an f-string renders it.\<close>

definition digit :: "nat \<Rightarrow> char" where
  "digit d = char_of (48 + d)"

fun str_nat :: "nat \<Rightarrow> string" where
  "str_nat n = (if n < 10 then [digit n] else str_nat (n div 10) @ [digit (n mod 10)])"

definition str_int :: "int \<Rightarrow> string" where
  "str_int i = (if i < 0 then CHR ''-'' # str_nat (nat (- i)) else str_nat (nat i))"

text \<open>An f-string field holding a string or \<^verbatim>\<open>None\<close>.\<close>

definition str_opt :: "string option \<Rightarrow> string" where
  "str_opt s = (case s of None \<Rightarrow> ''None'' | Some t \<Rightarrow> t)"

text \<open>\<^verbatim>\<open>",".join(batch)\<close>: raises \<^verbatim>\<open>TypeError\<close> on an item that is not a string.\<close>

fun join :: "string option list \<Rightarrow> exn + string" where
  "join [] = Inr []"
| "join (None # xs) = Inl TypeError"
| "join [Some s] = Inr s"
| "join (Some s # x # xs) =
     (case join (x # xs) of Inl e \<Rightarrow> Inl e | Inr r \<Rightarrow> Inr (s @ '','' @ r))"

text \<open>\<^verbatim>\<open>range(0, n, step)\<close>.\<close>

function range_up :: "nat \<Rightarrow> nat \<Rightarrow> nat \<Rightarrow> nat list" where
  "range_up i n s = (if 0 < s \<and> i < n then i # range_up (i + s) n s else [])"
  by pat_completeness auto
termination
  by (relation "measure (\<lambda>(i, n, s). n - i)") auto

declare range_up.simps [simp del]

definition py_range :: "nat \<Rightarrow> int \<Rightarrow> exn + nat list" where
  "py_range n step =
     (if step = 0 then Inl ValueError
      else if step < 0 then Inr []
      else Inr (range_up 0 n (nat step)))"

text \<open>\<^verbatim>\<open>elem.iter()\<close>: the element and its descendants in document order.\<close>

fun iter :: "xml \<Rightarrow> xml list" where
  "iter (Element t a x cs) = Element t a x cs # concat (map iter cs)"

definition descendants :: "xml \<Rightarrow> xml list" where
  "descendants e = concat (map iter (children e))"

text \<open>\<^verbatim>\<open>elem.findall(".//t")\<close> and \<^verbatim>\<open>elem.find(".//t")\<close>.\<close>

definition findall :: "string \<Rightarrow> xml \<Rightarrow> xml list" where
  "findall t e = filter (\<lambda>d. tag d = t) (descendants e)"

definition first :: "'a list \<Rightarrow> 'a option" where
  "first xs = (case xs of [] \<Rightarrow> None | x # _ \<Rightarrow> Some x)"

definition find_tag :: "string \<Rightarrow> xml \<Rightarrow> xml option" where
  "find_tag t e = first (findall t e)"

text \<open>\<^verbatim>\<open>elem.attrib.get(k)\<close>.\<close>

definition attrib_get :: "xml \<Rightarrow> string \<Rightarrow> string option" where
  "attrib_get e k = map_of (attrib e) k"

text \<open>\<^verbatim>\<open>article.find(".//article-id[@pub-id-type='pmc']")\<close>.\<close>

definition find_article_id :: "xml \<Rightarrow> xml option" where
  "find_article_id article =
     first (filter (\<lambda>d. attrib_get d ''pub-id-type'' = Some ''pmc'')
              (findall ''article-id'' article))"

text \<open>
  \<^verbatim>\<open>fig.find(".//caption/p")\<close>: the \<^verbatim>\<open>p\<close> children of the \<^verbatim>\<open>caption\<close> descendants,
  captions in document order.
\<close>

definition find_caption_p :: "xml \<Rightarrow> xml option" where
  "find_caption_p fig =
     first (concat (map (\<lambda>c. filter (\<lambda>p. tag p = ''p'') (children c))
                      (findall ''caption'' fig)))"

definition xlink_href :: string where
  "xlink_href = ''{http://www.w3.org/1999/xlink}href''"

section \<open>fetch_cdn_links\<close>

definition page_url :: "string option \<Rightarrow> string" where
  "page_url pmc_id = ''https://www.ncbi.nlm.nih.gov/pmc/articles/PMC'' @ str_opt pmc_id @ ''/''"

definition cdn_host :: string where
  "cdn_host = ''cdn.ncbi.nlm.nih.gov''"

text \<open>The loop over the \<^verbatim>\<open>img\<close> tags, appending to \<^verbatim>\<open>cdn_links\<close>.\<close>

fun img_loop :: "string option list \<Rightarrow> string list \<Rightarrow> string list" where
  "img_loop [] cdn_links = cdn_links"
| "img_loop (None # srcs) cdn_links = img_loop srcs cdn_links"
| "img_loop (Some src # srcs) cdn_links =
     (if src \<noteq> [] \<and> str_in cdn_host src
      then img_loop srcs
             (cdn_links @ [if startswith src ''//'' then ''https:'' @ src else src])
      else img_loop srcs cdn_links)"

definition fetch_cdn_links ::
  "world \<Rightarrow> string option \<Rightarrow> (exn + string list) \<times> event list" where
  "fetch_cdn_links w pmc_id =
     (let url = page_url pmc_id in
      case requests_get w url of
        RequestException \<Rightarrow> (Inr [], [Get url, Print (FailedPage pmc_id)])
      | Response c \<Rightarrow>
          (case soup_img_srcs c of
             Inl e \<Rightarrow> (Inl e, [Get url])
           | Inr srcs \<Rightarrow> (Inr (img_loop srcs []), [Get url])))"

section \<open>fetch_pmc_ids\<close>

definition esearch_url :: "string \<Rightarrow> string \<Rightarrow> int \<Rightarrow> string" where
  "esearch_url db term retmax =
     ''https://eutils.ncbi.nlm.nih.gov/entrez/eutils/esearch.fcgi?db='' @ db
       @ ''&term='' @ term @ ''&retmax='' @ str_int retmax"

definition fetch_pmc_ids ::
  "world \<Rightarrow> string \<Rightarrow> string \<Rightarrow> int \<Rightarrow> (exn + string option list) \<times> event list" where
  "fetch_pmc_ids w term db retmax =
     (let url = esearch_url db term retmax in
      case requests_get w url of
        RequestException \<Rightarrow> (Inr [], [Get url, Print FailedIds])
      | Response c \<Rightarrow>
          (case fromstring c of
             Inl e \<Rightarrow> (Inl e, [Get url])
           | Inr root_elem \<Rightarrow> (Inr (map elem_text (findall ''Id'' root_elem)), [Get url])))"

section \<open>fetch_article_details\<close>

definition efetch_url :: "string \<Rightarrow> string" where
  "efetch_url ids =
     ''https://eutils.ncbi.nlm.nih.gov/entrez/eutils/efetch.fcgi?db=pmc&id='' @ ids
       @ ''&retmode=xml''"

text \<open>The body of the loop over the figures: one caption and one image entry.\<close>

definition caption_of :: "xml \<Rightarrow> string option" where
  "caption_of fig =
     (case find_caption_p fig of None \<Rightarrow> Some ''No caption'' | Some p \<Rightarrow> elem_text p)"

definition image_url_of :: "string list \<Rightarrow> xml \<Rightarrow> string" where
  "image_url_of cdn_links fig =
     (case find_tag ''graphic'' fig of
        None \<Rightarrow> ''No image URL''
      | Some graphic \<Rightarrow>
          (case attrib_get graphic xlink_href of
             None \<Rightarrow> ''No image URL''
           | Some image_href \<Rightarrow>
               if image_href \<noteq> [] then
                 (case find (\<lambda>url. str_in image_href url) cdn_links of
                    Some url \<Rightarrow> url
                  | None \<Rightarrow> ''No Match Found'')
               else ''No image URL''))"

fun fig_loop ::
  "string list \<Rightarrow> xml list \<Rightarrow> string option list \<Rightarrow> string list
     \<Rightarrow> string option list \<times> string list" where
  "fig_loop cdn_links [] caps imgs = (caps, imgs)"
| "fig_loop cdn_links (fig # figs) caps imgs =
     fig_loop cdn_links figs (caps @ [caption_of fig]) (imgs @ [image_url_of cdn_links fig])"

text \<open>
  The identifier of an article element: \<^verbatim>\<open>pmcid_elem.text\<close>, or the sentinel when
  \<^verbatim>\<open>find\<close> gives \<^verbatim>\<open>None\<close>.
\<close>

definition article_pmcid :: "xml \<Rightarrow> string option" where
  "article_pmcid article =
     (case find_article_id article of None \<Rightarrow> Some ''No PMCID'' | Some e \<Rightarrow> elem_text e)"

text \<open>
  The body of the loop over the articles of one batch: the record appended, or the
  exception \<^verbatim>\<open>fetch_cdn_links\<close> raised.
\<close>

definition article_body :: "world \<Rightarrow> xml \<Rightarrow> (exn + article_record) \<times> event list" where
  "article_body w article =
     (let pmcid = article_pmcid article in
      case fetch_cdn_links w pmcid of
        (Inl e, evs) \<Rightarrow> (Inl e, evs)
      | (Inr cdn_links, evs) \<Rightarrow>
          (let title = (case find_tag ''article-title'' article of
                          None \<Rightarrow> Some ''No title'' | Some e \<Rightarrow> elem_text e);
               abstract = (case find_tag ''abstract'' article of
                             None \<Rightarrow> Some ''No abstract'' | Some e \<Rightarrow> elem_text e);
               (caps, imgs) = fig_loop cdn_links (findall ''fig'' article) [] []
           in (Inr \<lparr>pmcid = pmcid, title = title, abstract = abstract,
                     captions = caps, images = imgs\<rparr>, evs)))"

fun article_loop ::
  "world \<Rightarrow> xml list \<Rightarrow> (exn + article_record list) \<times> event list" where
  "article_loop w [] = (Inr [], [])"
| "article_loop w (article # articles) =
     (case article_body w article of
        (Inl e, evs) \<Rightarrow> (Inl e, evs)
      | (Inr r, evs) \<Rightarrow>
          (case article_loop w articles of
             (Inl e, evs') \<Rightarrow> (Inl e, evs @ evs')
           | (Inr rs, evs') \<Rightarrow> (Inr (r # rs), evs @ evs')))"

text \<open>
  The body of the loop over the batches: the records the batch adds to
  \<^verbatim>\<open>article_details\<close>, or the exception that ends the call.
\<close>

definition batch_body ::
  "world \<Rightarrow> string option list \<Rightarrow> (exn + article_record list) \<times> event list" where
  "batch_body w batch =
     (case join batch of
        Inl e \<Rightarrow> (Inl e, [])
      | Inr ids \<Rightarrow>
          (let url = efetch_url ids in
           case requests_get w url of
             RequestException \<Rightarrow> (Inr [], [Get url, Print (FailedBatch batch)])
           | Response c \<Rightarrow>
               (case fromstring c of
                  Inl e \<Rightarrow> (Inl e, [Get url])
                | Inr root_elem \<Rightarrow>
                    (case article_loop w (findall ''article'' root_elem) of
                       (Inl e, evs) \<Rightarrow> (Inl e, Get url # evs)
                     | (Inr rs, evs) \<Rightarrow> (Inr rs, Get url # evs)))))"

fun batch_loop ::
  "world \<Rightarrow> string option list list \<Rightarrow> (exn + article_record list) \<times> event list" where
  "batch_loop w [] = (Inr [], [])"
| "batch_loop w (batch # batches) =
     (case batch_body w batch of
        (Inl e, evs) \<Rightarrow> (Inl e, evs)
      | (Inr rs, evs) \<Rightarrow>
          (case batch_loop w batches of
             (Inl e, evs') \<Rightarrow> (Inl e, evs @ evs')
           | (Inr rs', evs') \<Rightarrow> (Inr (rs @ rs'), evs @ evs')))"

text \<open>\<^verbatim>\<open>pmcids[batch_start:batch_start + batch_size]\<close> for the starts of the range.\<close>

definition slice :: "'a list \<Rightarrow> nat \<Rightarrow> int \<Rightarrow> 'a list" where
  "slice xs start batch_size = take (nat batch_size) (drop start xs)"

definition batches :: "'a list \<Rightarrow> int \<Rightarrow> exn + 'a list list" where
  "batches pmcids batch_size =
     (case py_range (length pmcids) batch_size of
        Inl e \<Rightarrow> Inl e
      | Inr starts \<Rightarrow> Inr (map (\<lambda>batch_start. slice pmcids batch_start batch_size) starts))"

definition fetch_article_details ::
  "world \<Rightarrow> string option list \<Rightarrow> int \<Rightarrow> (exn + article_record list) \<times> event list" where
  "fetch_article_details w pmcids batch_size =
     (case batches pmcids batch_size of
        Inl e \<Rightarrow> (Inl e, [])
      | Inr bs \<Rightarrow> batch_loop w bs)"

section \<open>main\<close>

definition output_filename :: "world \<Rightarrow> string \<Rightarrow> int \<Rightarrow> string" where
  "output_filename w term retmax =
     term @ ''_'' @ str_int retmax @ ''_'' @ now w @ ''.json''"

definition main :: "world \<Rightarrow> string \<Rightarrow> int \<Rightarrow> (exn + unit) \<times> event list" where
  "main w term retmax =
     (case fetch_pmc_ids w term ''pmc'' retmax of
        (Inl e, evs) \<Rightarrow> (Inl e, evs)
      | (Inr pmcids, evs) \<Rightarrow>
          (let evs1 = evs @ [Print (Retrieved pmcids)] in
           if pmcids \<noteq> [] then
             (case fetch_article_details w pmcids 5 of
                (Inl e, evs') \<Rightarrow> (Inl e, evs1 @ evs')
              | (Inr details, evs') \<Rightarrow>
                  (let filename = output_filename w term retmax in
                   if can_open w filename
                   then (Inr (), evs1 @ evs' @ [WriteFile filename details, Print (Saved filename)])
                   else (Inl OSError, evs1 @ evs')))
           else (Inr (), evs1)))"

section \<open>Example inputs\<close>

definition ex_fig :: "string \<Rightarrow> xml" where
  "ex_fig href = Element ''fig'' [] None
     [Element ''caption'' [] None [Element ''p'' [] (Some ''A scan'') []],
      Element ''graphic'' [(xlink_href, href)] None []]"

definition ex_fig_no_graphic :: xml where
  "ex_fig_no_graphic = Element ''fig'' [] None
     [Element ''caption'' [] None [Element ''p'' [] (Some ''A scan'') []]]"

definition ex_fig_no_href :: xml where
  "ex_fig_no_href = Element ''fig'' [] None
     [Element ''graphic'' [(''id'', ''g1'')] None []]"

definition ex_fig_bold_caption :: xml where
  "ex_fig_bold_caption = Element ''fig'' [] None
     [Element ''caption'' [] None
        [Element ''p'' [] None [Element ''bold'' [] (Some ''Figure 1.'') []]],
      Element ''graphic'' [(xlink_href, ''fig1'')] None []]"

definition ex_article :: "string \<Rightarrow> string \<Rightarrow> xml" where
  "ex_article pmc href = Element ''article'' [] None
     [Element ''front'' [] None
        [Element ''article-id'' [(''pub-id-type'', ''pmid'')] (Some ''900'') [],
         Element ''article-id'' [(''pub-id-type'', ''pmc'')] (Some pmc) [],
         Element ''article-title'' [] (Some ''Imaging'') []],
      Element ''body'' [] None [ex_fig href]]"

definition ex_article_no_id :: xml where
  "ex_article_no_id = Element ''article'' [] None
     [Element ''front'' [] None
        [Element ''article-id'' [(''pub-id-type'', ''pmid'')] (Some ''900'') []]]"

definition ex_search_doc :: xml where
  "ex_search_doc = Element ''eSearchResult'' [] None
     [Element ''Count'' [] (Some ''2'') [],
      Element ''IdList'' [] None
        [Element ''Id'' [] (Some ''111'') [], Element ''Id'' [] (Some ''222'') []]]"

definition ex_page :: content where
  "ex_page = Content (Inl ParseError) (Inr
     [Some ''/static/logo.png'', None, Some ''//cdn.ncbi.nlm.nih.gov/a/fig1.jpg'',
      Some ''https://cdn.ncbi.nlm.nih.gov/a/fig3.jpg''])"

definition ex_get :: "string \<Rightarrow> response" where
  "ex_get u =
     (if u = esearch_url ''pmc'' ''cancer'' 2 then Response (Content (Inr ex_search_doc) (Inr []))
      else if u = efetch_url ''111,222'' then
        Response (Content (Inr (Element ''pmc-articleset'' [] None
          [ex_article ''111'' ''fig1'', ex_article ''222'' ''fig2''])) (Inr []))
      else if u = efetch_url ''222'' then
        Response (Content (Inr (Element ''pmc-articleset'' [] None
          [ex_article ''222'' ''fig2''])) (Inr []))
      else if u = page_url (Some ''111'') then Response ex_page
      else if u = page_url (Some ''222'') then
        Response (Content (Inl ParseError) (Inr [Some ''//cdn.ncbi.nlm.nih.gov/x.jpg'']))
      else RequestException)"

definition ex_world :: world where
  "ex_world = \<lparr>requests_get = ex_get, now = ''20240131_120000'', can_open = (\<lambda>f. True)\<rparr>"

definition ex_record_111 :: article_record where
  "ex_record_111 = \<lparr>pmcid = Some ''111'', title = Some ''Imaging'', abstract = Some ''No abstract'',
     captions = [Some ''A scan''], images = [''https://cdn.ncbi.nlm.nih.gov/a/fig1.jpg'']\<rparr>"

definition ex_record_222 :: article_record where
  "ex_record_222 = \<lparr>pmcid = Some ''222'', title = Some ''Imaging'', abstract = Some ''No abstract'',
     captions = [Some ''A scan''], images = [''No Match Found'']\<rparr>"

definition ex_world_down :: world where
  "ex_world_down = \<lparr>requests_get = (\<lambda>u. RequestException), now = ''20240131_120000'',
     can_open = (\<lambda>f. True)\<rparr>"

definition ex_record_no_id :: article_record where
  "ex_record_no_id = \<lparr>pmcid = Some ''No PMCID'', title = Some ''No title'',
     abstract = Some ''No abstract'', captions = [], images = []\<rparr>"



section \<open>Figures: captions and image entries\<close>

lemma find_first_index:
  "i < length xs \<Longrightarrow> P (xs ! i) \<Longrightarrow> \<forall>j<i. \<not> P (xs ! j) \<Longrightarrow> find P xs = Some (xs ! i)"
proof (induction xs arbitrary: i)
  case Nil
  then show ?case by simp
next
  case (Cons x xs)
  show ?case
  proof (cases i)
    case 0
    with Cons.prems show ?thesis by simp
  next
    case (Suc k)
    from Cons.prems Suc have nx: "\<not> P x" by fastforce
    from Cons.prems Suc have "find P xs = Some (xs ! k)"
      by (intro Cons.IH) fastforce+
    with nx Suc show ?thesis by simp
  qed
qed

lemma find_no_match: "\<forall>x\<in>set xs. \<not> P x \<Longrightarrow> find P xs = None"
  by (simp add: find_None_iff)

lemma ex_fig_graphic:
  "find_tag ''graphic'' (ex_fig href) = Some (Element ''graphic'' [(xlink_href, href)] None [])"
  by (simp add: ex_fig_def find_tag_def findall_def descendants_def first_def)

lemma ex_graphic_href:
  "attrib_get (Element ''graphic'' [(xlink_href, href)] None []) xlink_href = Some href"
  by (simp add: attrib_get_def)

text \<open>
  C1. For a figure with a graphic reference (a \<^verbatim>\<open>graphic\<close> element whose xlink href is
  a non-empty string), the image entry is the first entry of the article's CDN link
  list that contains the reference as a substring; when no entry contains it, and in
  particular when the list is empty, the entry is \<^verbatim>\<open>"No Match Found"\<close>.
\<close>

theorem image_url_first_match:
  assumes "find_tag ''graphic'' fig = Some graphic"
    and "attrib_get graphic xlink_href = Some image_href"
    and "image_href \<noteq> []"
  shows "(i < length cdn_links \<and> str_in image_href (cdn_links ! i)
            \<and> (\<forall>j<i. \<not> str_in image_href (cdn_links ! j))
          \<longrightarrow> image_url_of cdn_links fig = cdn_links ! i)
       \<and> ((\<forall>url\<in>set cdn_links. \<not> str_in image_href url)
          \<longrightarrow> image_url_of cdn_links fig = ''No Match Found'')
       \<and> (cdn_links = [] \<longrightarrow> image_url_of cdn_links fig = ''No Match Found'')"
proof -
  have eq: "image_url_of cdn_links fig =
      (case find (\<lambda>url. str_in image_href url) cdn_links of
         Some url \<Rightarrow> url | None \<Rightarrow> ''No Match Found'')"
    using assms by (simp add: image_url_of_def)
  show ?thesis
  proof (intro conjI impI)
    assume "i < length cdn_links \<and> str_in image_href (cdn_links ! i)
            \<and> (\<forall>j<i. \<not> str_in image_href (cdn_links ! j))"
    then have "find (\<lambda>url. str_in image_href url) cdn_links = Some (cdn_links ! i)"
      by (intro find_first_index) simp_all
    then show "image_url_of cdn_links fig = cdn_links ! i"
      by (simp add: eq)
  next
    assume "\<forall>url\<in>set cdn_links. \<not> str_in image_href url"
    then have "find (\<lambda>url. str_in image_href url) cdn_links = None"
      by (rule find_no_match)
    then show "image_url_of cdn_links fig = ''No Match Found''"
      by (simp add: eq)
  next
    assume "cdn_links = []"
    with eq show "image_url_of cdn_links fig = ''No Match Found''"
      by simp
  qed
qed

lemma str_in_fig1_a: "\<not> str_in ''fig1'' ''https://cdn.ncbi.nlm.nih.gov/a/logo.png''"
  unfolding str_in_def by code_simp

lemma str_in_fig1_b: "str_in ''fig1'' ''https://cdn.ncbi.nlm.nih.gov/a/fig1.jpg''"
  unfolding str_in_def by code_simp

theorem image_url_first_match_witness:
  "image_url_of [''https://cdn.ncbi.nlm.nih.gov/a/logo.png'',
                 ''https://cdn.ncbi.nlm.nih.gov/a/fig1.jpg'',
                 ''https://cdn.ncbi.nlm.nih.gov/b/fig1.jpg''] (ex_fig ''fig1'')
     = ''https://cdn.ncbi.nlm.nih.gov/a/fig1.jpg''
   \<and> image_url_of [''https://cdn.ncbi.nlm.nih.gov/a/logo.png''] (ex_fig ''fig1'')
     = ''No Match Found''
   \<and> image_url_of [] (ex_fig ''fig1'') = ''No Match Found''"
proof -
  have ne: "''fig1'' \<noteq> []" by simp
  note inst = image_url_first_match [OF ex_fig_graphic ex_graphic_href ne]
  have a: "image_url_of [''https://cdn.ncbi.nlm.nih.gov/a/logo.png'',
                 ''https://cdn.ncbi.nlm.nih.gov/a/fig1.jpg'',
                 ''https://cdn.ncbi.nlm.nih.gov/b/fig1.jpg''] (ex_fig ''fig1'')
     = ''https://cdn.ncbi.nlm.nih.gov/a/fig1.jpg''"
    using inst [of 1 "[''https://cdn.ncbi.nlm.nih.gov/a/logo.png'',
                 ''https://cdn.ncbi.nlm.nih.gov/a/fig1.jpg'',
                 ''https://cdn.ncbi.nlm.nih.gov/b/fig1.jpg'']"]
      str_in_fig1_a str_in_fig1_b by simp
  have b: "image_url_of [''https://cdn.ncbi.nlm.nih.gov/a/logo.png''] (ex_fig ''fig1'')
     = ''No Match Found''"
    using inst [of 0 "[''https://cdn.ncbi.nlm.nih.gov/a/logo.png'']"] str_in_fig1_a by simp
  have c: "image_url_of [] (ex_fig ''fig1'') = ''No Match Found''"
    using inst [of 0 "[]"] by simp
  from a b c show ?thesis by simp
qed

section \<open>Records of the batch-metadata stage\<close>

lemma fig_loop_eq:
  "fig_loop cdn_links figs caps imgs =
     (caps @ map caption_of figs, imgs @ map (image_url_of cdn_links) figs)"
  by (induction figs arbitrary: caps imgs) simp_all

lemma article_body_record:
  assumes "fst (article_body w article) = Inr r"
  shows "\<exists>cdn_links. fst (fetch_cdn_links w (pmcid r)) = Inr cdn_links
           \<and> pmcid r = article_pmcid article
           \<and> captions r = map caption_of (findall ''fig'' article)
           \<and> images r = map (image_url_of cdn_links) (findall ''fig'' article)"
proof (cases "fetch_cdn_links w (article_pmcid article)")
  case (Pair res evs)
  show ?thesis
  proof (cases res)
    case (Inl e)
    with Pair assms show ?thesis by (simp add: article_body_def Let_def)
  next
    case (Inr cdn_links)
    with Pair assms have r: "r = \<lparr>pmcid = article_pmcid article,
        title = (case find_tag ''article-title'' article of
                   None \<Rightarrow> Some ''No title'' | Some e \<Rightarrow> elem_text e),
        abstract = (case find_tag ''abstract'' article of
                      None \<Rightarrow> Some ''No abstract'' | Some e \<Rightarrow> elem_text e),
        captions = map caption_of (findall ''fig'' article),
        images = map (image_url_of cdn_links) (findall ''fig'' article)\<rparr>"
      by (simp add: article_body_def Let_def fig_loop_eq)
    from Pair Inr have "fst (fetch_cdn_links w (article_pmcid article)) = Inr cdn_links"
      by simp
    with r show ?thesis by simp
  qed
qed

lemma article_loop_records:
  "fst (article_loop w articles) = Inr rs \<Longrightarrow> r \<in> set rs \<Longrightarrow>
   \<exists>a. fst (article_body w a) = Inr r"
proof (induction articles arbitrary: rs)
  case Nil
  then show ?case by simp
next
  case (Cons a articles)
  from Cons.prems(1) obtain r1 rs' where
    a: "fst (article_body w a) = Inr r1" and l: "fst (article_loop w articles) = Inr rs'"
    and rs: "rs = r1 # rs'"
    by (auto split: prod.splits sum.splits)
  from Cons.prems(2) rs have "r = r1 \<or> r \<in> set rs'" by simp
  then show ?case
    using a Cons.IH [OF l] by blast
qed

lemma batch_body_records:
  assumes "fst (batch_body w batch) = Inr rs" and "r \<in> set rs"
  shows "\<exists>a. fst (article_body w a) = Inr r"
proof (cases "rs = []")
  case True
  with assms(2) show ?thesis by simp
next
  case False
  with assms(1) obtain doc where "fst (article_loop w (findall ''article'' doc)) = Inr rs"
    by (auto simp: batch_body_def Let_def
        split: sum.splits response.splits prod.splits) (metis fst_conv)
  then show ?thesis using assms(2) by (rule article_loop_records)
qed

lemma batch_loop_records:
  "fst (batch_loop w bs) = Inr rs \<Longrightarrow> r \<in> set rs \<Longrightarrow> \<exists>a. fst (article_body w a) = Inr r"
proof (induction bs arbitrary: rs)
  case Nil
  then show ?case by simp
next
  case (Cons b bs)
  from Cons.prems(1) obtain r1 r2 where
    b: "fst (batch_body w b) = Inr r1" and l: "fst (batch_loop w bs) = Inr r2"
    and rs: "rs = r1 @ r2"
    by (auto split: prod.splits sum.splits)
  from Cons.prems(2) rs have "r \<in> set r1 \<or> r \<in> set r2" by simp
  then show ?case
    using batch_body_records [OF b] Cons.IH [OF l] by blast
qed

text \<open>
  C2. In every record the batch-metadata stage returns, the captions and the images have
  the same length, and both are the figures of one article element in document order:
  entry \<open>i\<close> of each is computed from figure \<open>i\<close>.
\<close>

theorem captions_images_aligned:
  assumes "fst (fetch_article_details w pmcids batch_size) = Inr rs" and "r \<in> set rs"
  shows "length (captions r) = length (images r)
       \<and> (\<exists>article cdn_links. fst (article_body w article) = Inr r
            \<and> fst (fetch_cdn_links w (pmcid r)) = Inr cdn_links
            \<and> captions r = map caption_of (findall ''fig'' article)
            \<and> images r = map (image_url_of cdn_links) (findall ''fig'' article))"
proof -
  from assms(1) obtain bs where "fst (batch_loop w bs) = Inr rs"
    by (auto simp: fetch_article_details_def split: sum.splits)
  from batch_loop_records [OF this assms(2)] obtain a where
    a: "fst (article_body w a) = Inr r" ..
  from article_body_record [OF a] obtain cdn_links where
    l: "fst (fetch_cdn_links w (pmcid r)) = Inr cdn_links"
    and c: "captions r = map caption_of (findall ''fig'' a)"
    and i: "images r = map (image_url_of cdn_links) (findall ''fig'' a)" by blast
  from c i have "length (captions r) = length (images r)" by simp
  with a l c i show ?thesis by blast
qed

text \<open>
  C10. For a figure whose \<^verbatim>\<open>graphic\<close> element has no xlink href, or an empty one, the
  image entry is \<^verbatim>\<open>"No image URL"\<close> whatever the link list holds (every link contains
  the empty string, yet none is returned), the same sentinel as for a figure without a
  \<^verbatim>\<open>graphic\<close> element.
\<close>

theorem no_href_no_image_url:
  assumes "find_tag ''graphic'' fig = Some graphic"
    and "attrib_get graphic xlink_href = None \<or> attrib_get graphic xlink_href = Some []"
  shows "image_url_of cdn_links fig = ''No image URL''
       \<and> (find_tag ''graphic'' fig' = None \<longrightarrow> image_url_of cdn_links fig' = ''No image URL'')"
  using assms by (auto simp: image_url_of_def)

lemma ex_fig_no_href_graphic:
  "find_tag ''graphic'' ex_fig_no_href = Some (Element ''graphic'' [(''id'', ''g1'')] None [])"
  by (simp add: ex_fig_no_href_def find_tag_def findall_def descendants_def first_def)

lemma ex_fig_no_graphic_graphic: "find_tag ''graphic'' ex_fig_no_graphic = None"
  by (simp add: ex_fig_no_graphic_def find_tag_def findall_def descendants_def first_def)

theorem no_href_no_image_url_witness:
  "str_in [] ''https://cdn.ncbi.nlm.nih.gov/a/fig1.jpg''
   \<and> image_url_of [''https://cdn.ncbi.nlm.nih.gov/a/fig1.jpg''] (ex_fig []) = ''No image URL''
   \<and> image_url_of [''https://cdn.ncbi.nlm.nih.gov/a/fig1.jpg''] ex_fig_no_href = ''No image URL''
   \<and> image_url_of [''https://cdn.ncbi.nlm.nih.gov/a/fig1.jpg''] ex_fig_no_graphic = ''No image URL''"
proof -
  have h1: "attrib_get (Element ''graphic'' [(xlink_href, [])] None []) xlink_href = None
      \<or> attrib_get (Element ''graphic'' [(xlink_href, [])] None []) xlink_href = Some []"
    by (simp add: attrib_get_def)
  have h2: "attrib_get (Element ''graphic'' [(''id'', ''g1'')] None []) xlink_href = None
      \<or> attrib_get (Element ''graphic'' [(''id'', ''g1'')] None []) xlink_href = Some []"
    by (simp add: attrib_get_def xlink_href_def)
  have s: "str_in [] ''https://cdn.ncbi.nlm.nih.gov/a/fig1.jpg''"
    by (simp add: str_in_def)
  from s no_href_no_image_url [OF ex_fig_graphic h1, of _ ex_fig_no_graphic]
    no_href_no_image_url [OF ex_fig_no_href_graphic h2, of _ ex_fig_no_graphic]
    ex_fig_no_graphic_graphic
  show ?thesis by simp
qed

text \<open>
  C9. The claim says every captions entry is a string. For a figure whose caption
  paragraph begins with a child element, \<^verbatim>\<open>caption_elem.text\<close> is \<^verbatim>\<open>None\<close>, and that
  is the entry the code appends.
\<close>

theorem caption_without_text_is_None:
  "find_caption_p ex_fig_bold_caption
     = Some (Element ''p'' [] None [Element ''bold'' [] (Some ''Figure 1.'') []])
   \<and> caption_of ex_fig_bold_caption = None"
  by (simp add: caption_of_def find_caption_p_def ex_fig_bold_caption_def findall_def
      descendants_def first_def)

lemma ex_article_no_id_find: "find_article_id ex_article_no_id = None"
  by (simp add: find_article_id_def ex_article_no_id_def findall_def
      descendants_def first_def attrib_get_def)

lemma ex_article_no_id_body:
  "fst (article_body ex_world ex_article_no_id) = Inr ex_record_no_id"
proof -
  have g: "requests_get ex_world (page_url (Some ''No PMCID'')) = RequestException"
    by (simp add: ex_world_def ex_get_def page_url_def esearch_url_def efetch_url_def
        str_opt_def)
  have l: "fetch_cdn_links ex_world (Some ''No PMCID'') =
      (Inr [], [Get (page_url (Some ''No PMCID'')), Print (FailedPage (Some ''No PMCID''))])"
    by (simp add: fetch_cdn_links_def Let_def g)
  have t: "find_tag ''article-title'' ex_article_no_id = None"
    by (simp add: find_tag_def ex_article_no_id_def findall_def descendants_def first_def)
  have a: "find_tag ''abstract'' ex_article_no_id = None"
    by (simp add: find_tag_def ex_article_no_id_def findall_def descendants_def first_def)
  have f: "findall ''fig'' ex_article_no_id = []"
    by (simp add: ex_article_no_id_def findall_def descendants_def)
  show ?thesis
    by (simp add: article_body_def article_pmcid_def ex_article_no_id_find l t a f Let_def
        ex_record_no_id_def)
qed

text \<open>
  C4 as stated fails: for an article without a pmc identifier the field of the record
  is not \<^verbatim>\<open>"unknown"\<close>.
\<close>

theorem missing_pmc_id_counterexample:
  "find_article_id ex_article_no_id = None
   \<and> fst (article_body ex_world ex_article_no_id) = Inr ex_record_no_id
   \<and> pmcid ex_record_no_id \<noteq> Some ''unknown''"
  by (simp add: ex_article_no_id_find ex_article_no_id_body ex_record_no_id_def)

text \<open>
  C4, amended. When the article element has no \<^verbatim>\<open>article-id\<close> with
  \<^verbatim>\<open>pub-id-type='pmc'\<close>, the identifier the code computes for it is the sentinel
  \<^verbatim>\<open>"No PMCID"\<close>, and that is the identifier field of the record appended for the
  article.
\<close>

theorem missing_pmc_id_sentinel:
  assumes "find_article_id article = None"
  shows "article_pmcid article = Some ''No PMCID''
       \<and> (\<forall>r. fst (article_body w article) = Inr r \<longrightarrow> pmcid r = Some ''No PMCID'')"
proof -
  from assms have p: "article_pmcid article = Some ''No PMCID''"
    by (simp add: article_pmcid_def)
  have "pmcid r = Some ''No PMCID''" if "fst (article_body w article) = Inr r" for r
    using article_body_record [OF that] p by auto
  with p show ?thesis by blast
qed

theorem missing_pmc_id_sentinel_witness:
  "find_article_id ex_article_no_id = None
   \<and> fst (article_body ex_world ex_article_no_id) = Inr ex_record_no_id
   \<and> pmcid ex_record_no_id = Some ''No PMCID''"
proof -
  from missing_pmc_id_sentinel [OF ex_article_no_id_find, of ex_world] ex_article_no_id_body
  have "pmcid ex_record_no_id = Some ''No PMCID''" by blast
  with ex_article_no_id_find ex_article_no_id_body show ?thesis by blast
qed

section \<open>Image resolution\<close>

lemma img_loop_eq:
  "img_loop srcs acc =
     acc @ map (\<lambda>src. if startswith src ''//'' then ''https:'' @ src else src)
             (filter (\<lambda>src. src \<noteq> [] \<and> str_in cdn_host src) (List.map_filter id srcs))"
proof (induction srcs acc rule: img_loop.induct)
  case (1 cdn_links)
  then show ?case by (simp add: List.map_filter_simps)
next
  case (2 srcs cdn_links)
  then show ?case by (simp add: List.map_filter_simps)
next
  case (3 src srcs cdn_links)
  then show ?case by (simp add: List.map_filter_simps)
qed

lemma set_map_filter_id: "set (List.map_filter id xs) = {x. Some x \<in> set xs}"
  by (induction xs) (auto simp: List.map_filter_simps split: option.splits)

lemma str_in_host_nonempty: "str_in cdn_host src \<Longrightarrow> src \<noteq> []"
  by (auto simp: str_in_def cdn_host_def)

lemma str_in_https: "str_in a src \<Longrightarrow> str_in a (''https:'' @ src)"
  unfolding str_in_def sublist_def
proof -
  assume "\<exists>ps ss. src = ps @ a @ ss"
  then obtain ps ss where "src = ps @ a @ ss" by blast
  then have "''https:'' @ src = (''https:'' @ ps) @ a @ ss" by simp
  then show "\<exists>ps ss. ''https:'' @ src = ps @ a @ ss" by blast
qed

lemma not_startswith_https: "\<not> startswith (''https:'' @ src) ''//''"
  by (simp add: startswith_def)

text \<open>
  C8. When the article page is received and parsed, every link collected contains the
  content-delivery host string and none begins with \<^verbatim>\<open>//\<close>; the links are exactly the
  image sources containing the host string, those beginning with \<^verbatim>\<open>//\<close> prefixed with
  \<^verbatim>\<open>https:\<close>; and \<^verbatim>\<open>//cdn.ncbi.nlm.nih.gov/x.jpg\<close> becomes
  \<^verbatim>\<open>https://cdn.ncbi.nlm.nih.gov/x.jpg\<close>.
\<close>

theorem cdn_links_normalized:
  assumes "requests_get w (page_url pmc_id) = Response c"
    and "soup_img_srcs c = Inr srcs"
  shows "\<exists>links. fst (fetch_cdn_links w pmc_id) = Inr links
       \<and> (\<forall>u\<in>set links. str_in cdn_host u \<and> \<not> startswith u ''//'')
       \<and> (\<forall>u. u \<in> set links \<longleftrightarrow>
              (\<exists>src. Some src \<in> set srcs \<and> str_in cdn_host src
                 \<and> u = (if startswith src ''//'' then ''https:'' @ src else src)))
       \<and> (srcs = [Some ''//cdn.ncbi.nlm.nih.gov/x.jpg'']
            \<longrightarrow> links = [''https://cdn.ncbi.nlm.nih.gov/x.jpg''])"
proof -
  let ?n = "\<lambda>src. if startswith src ''//'' then ''https:'' @ src else src"
  let ?links = "img_loop srcs []"
  have links: "fst (fetch_cdn_links w pmc_id) = Inr ?links"
    using assms by (simp add: fetch_cdn_links_def Let_def)
  have mem: "u \<in> set ?links \<longleftrightarrow>
      (\<exists>src. Some src \<in> set srcs \<and> str_in cdn_host src \<and> u = ?n src)" for u
    using str_in_host_nonempty by (auto simp: img_loop_eq set_map_filter_id)
  have p1: "\<forall>u\<in>set ?links. str_in cdn_host u \<and> \<not> startswith u ''//''"
  proof
    fix u assume "u \<in> set ?links"
    then obtain src where src: "str_in cdn_host src" and u: "u = ?n src"
      using mem by auto
    show "str_in cdn_host u \<and> \<not> startswith u ''//''"
      using src u str_in_https not_startswith_https by (cases "startswith src ''//''") simp_all
  qed
  have p3: "srcs = [Some ''//cdn.ncbi.nlm.nih.gov/x.jpg'']
            \<longrightarrow> ?links = [''https://cdn.ncbi.nlm.nih.gov/x.jpg'']"
  proof
    assume a: "srcs = [Some ''//cdn.ncbi.nlm.nih.gov/x.jpg'']"
    have "str_in cdn_host ''//cdn.ncbi.nlm.nih.gov/x.jpg''"
      unfolding str_in_def cdn_host_def by code_simp
    then show "?links = [''https://cdn.ncbi.nlm.nih.gov/x.jpg'']"
      by (simp add: a startswith_def)
  qed
  from links p1 mem p3 show ?thesis by blast
qed

section \<open>The example run, step by step\<close>

lemma str_int_2: "str_int 2 = ''2''"
  by code_simp

lemma ex_get_page_111: "ex_get (page_url (Some ''111'')) = Response ex_page"
  by (simp add: ex_get_def page_url_def esearch_url_def efetch_url_def str_opt_def)

lemma ex_get_page_222:
  "ex_get (page_url (Some ''222'')) = Response (Content (Inl ParseError) (Inr [Some ''//cdn.ncbi.nlm.nih.gov/x.jpg'']))"
  by (simp add: ex_get_def page_url_def esearch_url_def efetch_url_def str_opt_def)

lemma ex_get_efetch_111: "ex_get (efetch_url ''111'') = RequestException"
  by (simp add: ex_get_def page_url_def esearch_url_def efetch_url_def str_opt_def)

lemma ex_get_efetch_222:
  "ex_get (efetch_url ''222'') = Response (Content (Inr (Element ''pmc-articleset'' [] None
          [ex_article ''222'' ''fig2''])) (Inr []))"
  by (simp add: ex_get_def page_url_def esearch_url_def efetch_url_def str_opt_def)

lemma ex_get_efetch_both:
  "ex_get (efetch_url ''111,222'') = Response (Content (Inr (Element ''pmc-articleset'' [] None
          [ex_article ''111'' ''fig1'', ex_article ''222'' ''fig2''])) (Inr []))"
  by (simp add: ex_get_def page_url_def esearch_url_def efetch_url_def str_opt_def)

lemma ex_get_esearch:
  "ex_get (esearch_url ''pmc'' ''cancer'' 2) = Response (Content (Inr ex_search_doc) (Inr []))"
  by (simp add: ex_get_def)

lemma str_in_host_1: "str_in cdn_host ''//cdn.ncbi.nlm.nih.gov/a/fig1.jpg''"
  unfolding str_in_def cdn_host_def by code_simp

lemma str_in_host_2: "str_in cdn_host ''https://cdn.ncbi.nlm.nih.gov/a/fig3.jpg''"
  unfolding str_in_def cdn_host_def by code_simp

lemma str_in_host_3: "\<not> str_in cdn_host ''/static/logo.png''"
  unfolding str_in_def cdn_host_def by code_simp

lemma str_in_host_4: "str_in cdn_host ''//cdn.ncbi.nlm.nih.gov/x.jpg''"
  unfolding str_in_def cdn_host_def by code_simp

lemma ex_cdn_links_111:
  "fetch_cdn_links ex_world (Some ''111'') =
     (Inr [''https://cdn.ncbi.nlm.nih.gov/a/fig1.jpg'',
           ''https://cdn.ncbi.nlm.nih.gov/a/fig3.jpg''],
      [Get (page_url (Some ''111''))])"
  by (simp add: fetch_cdn_links_def ex_world_def ex_get_page_111 ex_page_def Let_def
      str_in_host_1 str_in_host_2 str_in_host_3 startswith_def)

lemma ex_cdn_links_222:
  "fetch_cdn_links ex_world (Some ''222'') =
     (Inr [''https://cdn.ncbi.nlm.nih.gov/x.jpg''], [Get (page_url (Some ''222''))])"
  by (simp add: fetch_cdn_links_def ex_world_def ex_get_page_222 Let_def
      str_in_host_4 startswith_def)

lemma ex_article_id: "find_article_id (ex_article pmc href)
    = Some (Element ''article-id'' [(''pub-id-type'', ''pmc'')] (Some pmc) [])"
  by (simp add: find_article_id_def ex_article_def ex_fig_def findall_def descendants_def
      first_def attrib_get_def)

lemma ex_article_pmcid: "article_pmcid (ex_article pmc href) = Some pmc"
  by (simp add: article_pmcid_def ex_article_id)

lemma ex_article_title: "find_tag ''article-title'' (ex_article pmc href)
    = Some (Element ''article-title'' [] (Some ''Imaging'') [])"
  by (simp add: find_tag_def ex_article_def ex_fig_def findall_def descendants_def first_def)

lemma ex_article_abstract: "find_tag ''abstract'' (ex_article pmc href) = None"
  by (simp add: find_tag_def ex_article_def ex_fig_def findall_def descendants_def first_def)

lemma ex_article_figs: "findall ''fig'' (ex_article pmc href) = [ex_fig href]"
  by (simp add: ex_article_def ex_fig_def findall_def descendants_def)

lemma ex_fig_caption: "caption_of (ex_fig href) = Some ''A scan''"
  by (simp add: caption_of_def find_caption_p_def ex_fig_def findall_def descendants_def first_def)

lemma str_in_fig1_c: "\<not> str_in ''fig1'' ''https://cdn.ncbi.nlm.nih.gov/a/fig3.jpg''"
  unfolding str_in_def by code_simp

lemma str_in_fig2_x: "\<not> str_in ''fig2'' ''https://cdn.ncbi.nlm.nih.gov/x.jpg''"
  unfolding str_in_def by code_simp

lemma ex_image_111:
  "image_url_of [''https://cdn.ncbi.nlm.nih.gov/a/fig1.jpg'', ''https://cdn.ncbi.nlm.nih.gov/a/fig3.jpg'']
     (ex_fig ''fig1'') = ''https://cdn.ncbi.nlm.nih.gov/a/fig1.jpg''"
  by (simp add: image_url_of_def ex_fig_graphic ex_graphic_href str_in_fig1_b)

lemma ex_image_222:
  "image_url_of [''https://cdn.ncbi.nlm.nih.gov/x.jpg''] (ex_fig ''fig2'') = ''No Match Found''"
  by (simp add: image_url_of_def ex_fig_graphic ex_graphic_href str_in_fig2_x)

lemma ex_article_body_111:
  "article_body ex_world (ex_article ''111'' ''fig1'') =
     (Inr ex_record_111, [Get (page_url (Some ''111''))])"
  by (simp add: article_body_def ex_article_pmcid ex_article_title ex_article_abstract
      ex_article_figs ex_cdn_links_111 Let_def ex_fig_caption ex_image_111 ex_record_111_def)

lemma ex_article_body_222:
  "article_body ex_world (ex_article ''222'' ''fig2'') =
     (Inr ex_record_222, [Get (page_url (Some ''222''))])"
  by (simp add: article_body_def ex_article_pmcid ex_article_title ex_article_abstract
      ex_article_figs ex_cdn_links_222 Let_def ex_fig_caption ex_image_222 ex_record_222_def)

lemma ex_articles_both:
  "findall ''article'' (Element ''pmc-articleset'' [] None
          [ex_article ''111'' ''fig1'', ex_article ''222'' ''fig2''])
     = [ex_article ''111'' ''fig1'', ex_article ''222'' ''fig2'']"
  by (simp add: findall_def descendants_def ex_article_def ex_fig_def)

lemma ex_articles_222:
  "findall ''article'' (Element ''pmc-articleset'' [] None [ex_article ''222'' ''fig2''])
     = [ex_article ''222'' ''fig2'']"
  by (simp add: findall_def descendants_def ex_article_def ex_fig_def)

lemma ex_batch_222:
  "batch_body ex_world [Some ''222''] =
     (Inr [ex_record_222], [Get (efetch_url ''222''), Get (page_url (Some ''222''))])"
  by (simp add: batch_body_def ex_world_def ex_get_efetch_222 ex_articles_222
      ex_article_body_222 [unfolded ex_world_def])

lemma ex_batch_111:
  "batch_body ex_world [Some ''111''] =
     (Inr [], [Get (efetch_url ''111''), Print (FailedBatch [Some ''111''])])"
  by (simp add: batch_body_def ex_world_def ex_get_efetch_111)

lemma ex_batch_both:
  "batch_body ex_world [Some ''111'', Some ''222''] =
     (Inr [ex_record_111, ex_record_222],
      [Get (efetch_url ''111,222''), Get (page_url (Some ''111'')), Get (page_url (Some ''222''))])"
  by (simp add: batch_body_def ex_world_def ex_get_efetch_both ex_articles_both
      ex_article_body_111 [unfolded ex_world_def] ex_article_body_222 [unfolded ex_world_def])

lemma range_up_2_5: "range_up 0 (Suc (Suc 0)) 5 = [0]"
  by (simp add: range_up.simps)

lemma range_up_2_1: "range_up 0 (Suc (Suc 0)) (Suc 0) = [0, Suc 0]"
  by (simp add: range_up.simps)

lemma ex_batches_5: "batches [Some ''111'', Some ''222''] 5 = Inr [[Some ''111'', Some ''222'']]"
  by (simp add: batches_def py_range_def range_up_2_5 slice_def)

lemma ex_batches_1: "batches [Some ''111'', Some ''222''] 1 = Inr [[Some ''111''], [Some ''222'']]"
  by (simp add: batches_def py_range_def range_up_2_1 slice_def)

lemma ex_details_5:
  "fetch_article_details ex_world [Some ''111'', Some ''222''] 5 =
     (Inr [ex_record_111, ex_record_222],
      [Get (efetch_url ''111,222''), Get (page_url (Some ''111'')), Get (page_url (Some ''222''))])"
  by (simp add: fetch_article_details_def ex_batches_5 ex_batch_both)

lemma ex_details_1:
  "fetch_article_details ex_world [Some ''111'', Some ''222''] 1 =
     (Inr [ex_record_222],
      [Get (efetch_url ''111''), Print (FailedBatch [Some ''111'']),
       Get (efetch_url ''222''), Get (page_url (Some ''222''))])"
  by (simp add: fetch_article_details_def ex_batches_1 ex_batch_111 ex_batch_222)

theorem captions_images_aligned_witness:
  "fst (fetch_article_details ex_world [Some ''111'', Some ''222''] 5)
     = Inr [ex_record_111, ex_record_222]
   \<and> ex_record_222 \<in> set [ex_record_111, ex_record_222]
   \<and> length (captions ex_record_222) = length (images ex_record_222)"
proof -
  have h1: "fst (fetch_article_details ex_world [Some ''111'', Some ''222''] 5)
     = Inr [ex_record_111, ex_record_222]"
    by (simp add: ex_details_5)
  have h2: "ex_record_222 \<in> set [ex_record_111, ex_record_222]" by simp
  from h1 h2 captions_images_aligned [OF h1 h2] show ?thesis by simp
qed

theorem cdn_links_normalized_witness:
  "requests_get ex_world (page_url (Some ''111'')) = Response ex_page
   \<and> fst (fetch_cdn_links ex_world (Some ''111'')) =
       Inr [''https://cdn.ncbi.nlm.nih.gov/a/fig1.jpg'', ''https://cdn.ncbi.nlm.nih.gov/a/fig3.jpg'']
   \<and> str_in cdn_host ''https://cdn.ncbi.nlm.nih.gov/a/fig1.jpg''
   \<and> \<not> startswith ''https://cdn.ncbi.nlm.nih.gov/a/fig1.jpg'' ''//''
   \<and> requests_get ex_world (page_url (Some ''222''))
       = Response (Content (Inl ParseError) (Inr [Some ''//cdn.ncbi.nlm.nih.gov/x.jpg'']))
   \<and> fst (fetch_cdn_links ex_world (Some ''222'')) = Inr [''https://cdn.ncbi.nlm.nih.gov/x.jpg'']"
proof -
  have h1: "requests_get ex_world (page_url (Some ''111'')) = Response ex_page"
    by (simp add: ex_world_def ex_get_page_111)
  have s1: "soup_img_srcs ex_page = Inr [Some ''/static/logo.png'', None,
      Some ''//cdn.ncbi.nlm.nih.gov/a/fig1.jpg'', Some ''https://cdn.ncbi.nlm.nih.gov/a/fig3.jpg'']"
    by (simp add: ex_page_def)
  have h2: "requests_get ex_world (page_url (Some ''222''))
       = Response (Content (Inl ParseError) (Inr [Some ''//cdn.ncbi.nlm.nih.gov/x.jpg'']))"
    by (simp add: ex_world_def ex_get_page_222)
  have s2: "soup_img_srcs (Content (Inl ParseError) (Inr [Some ''//cdn.ncbi.nlm.nih.gov/x.jpg'']))
      = Inr [Some ''//cdn.ncbi.nlm.nih.gov/x.jpg'']"
    by simp
  have e1: "fst (fetch_cdn_links ex_world (Some ''111'')) =
       Inr [''https://cdn.ncbi.nlm.nih.gov/a/fig1.jpg'', ''https://cdn.ncbi.nlm.nih.gov/a/fig3.jpg'']"
    by (simp add: ex_cdn_links_111)
  from cdn_links_normalized [OF h1 s1] e1
  have "\<forall>u\<in>set [''https://cdn.ncbi.nlm.nih.gov/a/fig1.jpg'',
      ''https://cdn.ncbi.nlm.nih.gov/a/fig3.jpg'']. str_in cdn_host u \<and> \<not> startswith u ''//''"
    by auto
  then have p: "str_in cdn_host ''https://cdn.ncbi.nlm.nih.gov/a/fig1.jpg''
      \<and> \<not> startswith ''https://cdn.ncbi.nlm.nih.gov/a/fig1.jpg'' ''//''"
    by simp
  from cdn_links_normalized [OF h2 s2]
  have l: "fst (fetch_cdn_links ex_world (Some ''222'')) = Inr [''https://cdn.ncbi.nlm.nih.gov/x.jpg'']"
    by auto
  from h1 e1 p h2 l show ?thesis by blast
qed

section \<open>Batching\<close>

lemma upt_Suc_shift: "[0..<Suc m] = 0 # map Suc [0..<m]"
  by (simp add: upt_conv_Cons map_Suc_upt del: upt_Suc)

lemma range_count_step:
  assumes "0 < s" "i < n"
  shows "(n - i + s - 1) div s = Suc ((n - (i + s) + s - 1) div s)"
proof -
  from assms have e: "n - i + s - 1 = (n - i - 1) + s" by arith
  from assms(1) have "((n - i - 1) + s) div s = (n - i - 1) div s + 1"
    by (intro div_add_self2) simp
  then have lhs: "(n - i + s - 1) div s = Suc ((n - i - 1) div s)"
    by (simp only: e Suc_eq_plus1)
  have rhs: "(n - (i + s) + s - 1) div s = (n - i - 1) div s"
  proof (cases "i + s \<le> n")
    case True
    then have "n - (i + s) + s - 1 = n - i - 1" by arith
    then show ?thesis by (simp only:)
  next
    case False
    then have z: "n - (i + s) = 0" by arith
    from False assms have "n - i - 1 < s" by arith
    then have "(n - i - 1) div s = 0" by simp
    moreover from assms(1) have "(s - 1) div s = 0" by simp
    ultimately show ?thesis by (simp only: z add_0)
  qed
  from lhs rhs show ?thesis by (simp only:)
qed

lemma range_up_eq:
  "0 < s \<Longrightarrow> range_up i n s = map (\<lambda>k. i + k * s) [0..<(n - i + s - 1) div s]"
proof (induction i n s rule: range_up.induct)
  case (1 i n s)
  show ?case
  proof (cases "i < n")
    case True
    with 1 have ih: "range_up (i + s) n s
        = map (\<lambda>k. i + s + k * s) [0..<(n - (i + s) + s - 1) div s]" by simp
    have "range_up i n s = i # range_up (i + s) n s"
      using True "1.prems" by (subst range_up.simps) simp
    also have "\<dots> = map (\<lambda>k. i + k * s) [0..<Suc ((n - (i + s) + s - 1) div s)]"
      unfolding upt_Suc_shift ih by (simp add: comp_def add.assoc)
    finally show ?thesis
      using range_count_step [OF "1.prems" True] by simp
  next
    case False
    then have "n - i + s - 1 < s" using "1.prems" by simp
    then have "(n - i + s - 1) div s = 0" by simp
    moreover have "range_up i n s = []"
      using False by (subst range_up.simps) simp
    ultimately show ?thesis by simp
  qed
qed

lemma concat_slices:
  "0 < s \<Longrightarrow> concat (map (\<lambda>a. take s (drop a xs)) (range_up i (length xs) s)) = drop i xs"
proof (induction i "length xs" s rule: range_up.induct)
  case (1 i s)
  show ?case
  proof (cases "i < length xs")
    case True
    with 1 have ih: "concat (map (\<lambda>a. take s (drop a xs)) (range_up (i + s) (length xs) s))
        = drop (i + s) xs" by simp
    have "range_up i (length xs) s = i # range_up (i + s) (length xs) s"
      using True "1.prems" by (subst range_up.simps) simp
    then have "concat (map (\<lambda>a. take s (drop a xs)) (range_up i (length xs) s))
        = take s (drop i xs) @ drop (i + s) xs"
      by (simp add: ih)
    also have "\<dots> = take s (drop i xs) @ drop s (drop i xs)"
      by (simp add: add.commute)
    also have "\<dots> = drop i xs"
      by (rule append_take_drop_id)
    finally show ?thesis .
  next
    case False
    then have "range_up i (length xs) s = []"
      by (subst range_up.simps) simp
    with False show ?thesis by simp
  qed
qed

lemma ceiling_nat_div:
  assumes "0 < s"
  shows "\<lceil>real n / real s\<rceil> = int ((n + s - 1) div s)"
proof -
  define q where "q = (n + s - 1) div s"
  have 1: "q * s \<le> n + s - 1"
    unfolding q_def by (rule div_times_less_eq_dividend)
  have 2: "n + s - 1 < s + q * s"
    unfolding q_def using assms by (rule dividend_less_div_times)
  from 2 assms have le: "n \<le> q * s" by arith
  from 1 assms have lt: "q * s < n + s" by arith
  have s0: "0 < real s" using assms by simp
  from le have "real n \<le> real q * real s"
    by (metis of_nat_le_iff of_nat_mult)
  with s0 have up: "real n / real s \<le> real q"
    by (simp add: pos_divide_le_eq)
  from lt have "real q * real s < real n + real s"
    by (metis of_nat_less_iff of_nat_mult of_nat_add)
  then have "(real q - 1) * real s < real n"
    by (simp add: algebra_simps)
  with s0 have low: "real q - 1 < real n / real s"
    by (simp add: pos_less_divide_eq)
  have "\<lceil>real n / real s\<rceil> = int q"
  proof (rule ceiling_unique)
    show "of_int (int q) - 1 < real n / real s" using low by simp
    show "real n / real s \<le> of_int (int q)" using up by simp
  qed
  then show ?thesis by (simp only: q_def)
qed

lemma ceiling_int_div:
  assumes "0 < (b::int)"
  shows "\<lceil>real n / real_of_int b\<rceil> = int ((n + nat b - 1) div nat b)"
proof -
  from assms have "real_of_int b = real (nat b)" by simp
  moreover from assms have "0 < nat b" by simp
  ultimately show ?thesis using ceiling_nat_div [of "nat b" n] by (simp only:)
qed

lemma batches_pos:
  "0 < batch_size \<Longrightarrow>
   batches xs batch_size =
     Inr (map (\<lambda>a. take (nat batch_size) (drop a xs)) (range_up 0 (length xs) (nat batch_size)))"
  by (simp add: batches_def py_range_def slice_def)

lemma slice_start_in_range:
  assumes "0 < (s::nat)" and "(k::nat) < (n + s - 1) div s"
  shows "k * s < n"
proof -
  from assms(2) have "Suc k \<le> (n + s - 1) div s" by simp
  then have "Suc k * s \<le> (n + s - 1) div s * s" by (rule mult_le_mono1)
  also have "\<dots> \<le> n + s - 1" by (rule div_times_less_eq_dividend)
  finally have "k * s + s \<le> n + s - 1" by (simp add: add.commute)
  with assms(1) show ?thesis by arith
qed

text \<open>
  C3. For a non-empty identifier list of length \<open>N\<close> and a positive batch size \<open>B\<close>,
  the batches the stage loops over are \<open>\<lceil>N / B\<rceil>\<close> in number; batch \<open>k\<close> is the
  non-empty contiguous slice of at most \<open>B\<close> identifiers starting at index \<open>k * B\<close>, so the
  batches do not overlap, and their concatenation in order is the list.
\<close>

theorem batches_partition:
  assumes "pmcids \<noteq> []" and "0 < batch_size"
  shows "\<exists>bs. batches pmcids batch_size = Inr bs
      \<and> fetch_article_details w pmcids batch_size = batch_loop w bs
      \<and> int (length bs) = \<lceil>real (length pmcids) / real_of_int batch_size\<rceil>
      \<and> concat bs = pmcids
      \<and> (\<forall>k<length bs.
            bs ! k = take (nat batch_size) (drop (k * nat batch_size) pmcids) \<and> bs ! k \<noteq> [])"
proof -
  let ?s = "nat batch_size"
  let ?n = "length pmcids"
  let ?q = "(?n + ?s - 1) div ?s"
  let ?bs = "map (\<lambda>a. take ?s (drop a pmcids)) (range_up 0 ?n ?s)"
  from assms(2) have s: "0 < ?s" by simp
  have b: "batches pmcids batch_size = Inr ?bs"
    using assms(2) by (rule batches_pos)
  have f: "fetch_article_details w pmcids batch_size = batch_loop w ?bs"
    by (simp add: fetch_article_details_def b)
  have r: "range_up 0 ?n ?s = map (\<lambda>k. k * ?s) [0..<?q]"
    using range_up_eq [OF s, of 0 ?n] by simp
  have len: "length ?bs = ?q" by (simp add: r)
  have c: "int (length ?bs) = \<lceil>real ?n / real_of_int batch_size\<rceil>"
    by (simp only: len ceiling_int_div [OF assms(2)])
  have cc: "concat ?bs = pmcids"
    using concat_slices [OF s, of pmcids 0] by simp
  have nth: "\<forall>k<length ?bs. ?bs ! k = take ?s (drop (k * ?s) pmcids) \<and> ?bs ! k \<noteq> []"
  proof (intro allI impI)
    fix k assume "k < length ?bs"
    then have k: "k < ?q" by (simp only: len)
    have e: "?bs ! k = take ?s (drop (k * ?s) pmcids)"
      using k by (simp add: r)
    from slice_start_in_range [OF s k] have "drop (k * ?s) pmcids \<noteq> []" by simp
    with s have "take ?s (drop (k * ?s) pmcids) \<noteq> []" by (cases "drop (k * ?s) pmcids") auto
    with e show "?bs ! k = take ?s (drop (k * ?s) pmcids) \<and> ?bs ! k \<noteq> []" by simp
  qed
  from b f c cc nth show ?thesis by blast
qed

theorem batches_partition_witness:
  "\<exists>bs. batches [Some ''1'', Some ''2'', Some ''3'', Some ''4'', Some ''5'', Some ''6'', Some ''7''] 3 = Inr bs
      \<and> length bs = 3
      \<and> concat bs = [Some ''1'', Some ''2'', Some ''3'', Some ''4'', Some ''5'', Some ''6'', Some ''7'']
      \<and> bs ! 2 = [Some ''7'']"
proof -
  have h1: "[Some ''1'', Some ''2'', Some ''3'', Some ''4'', Some ''5'', Some ''6'', Some ''7''] \<noteq> []" by simp
  have h2: "(0::int) < 3" by simp
  have c: "\<lceil>real (length [Some ''1'', Some ''2'', Some ''3'', Some ''4'', Some ''5'', Some ''6'', Some ''7'']) / real_of_int 3\<rceil> = 3"
    by (simp add: ceiling_eq_iff)
  from batches_partition [OF h1 h2] obtain bs where
    b: "batches [Some ''1'', Some ''2'', Some ''3'', Some ''4'', Some ''5'', Some ''6'', Some ''7''] 3 = Inr bs"
    and l: "int (length bs) = \<lceil>real (length [Some ''1'', Some ''2'', Some ''3'', Some ''4'', Some ''5'', Some ''6'', Some ''7'']) / real_of_int 3\<rceil>"
    and cc: "concat bs = [Some ''1'', Some ''2'', Some ''3'', Some ''4'', Some ''5'', Some ''6'', Some ''7'']"
    and n: "\<forall>k<length bs. bs ! k = take (nat 3) (drop (k * nat 3) [Some ''1'', Some ''2'', Some ''3'', Some ''4'', Some ''5'', Some ''6'', Some ''7''])
          \<and> bs ! k \<noteq> []"
    by blast
  from l c have l3: "length bs = 3" by simp
  with n have "bs ! 2 = take (nat 3) (drop (2 * nat 3) [Some ''1'', Some ''2'', Some ''3'', Some ''4'', Some ''5'', Some ''6'', Some ''7''])"
    by simp
  then have "bs ! 2 = [Some ''7'']" by simp
  with b l3 cc show ?thesis by blast
qed

section \<open>Failure of the search request\<close>

lemma esearch_ne_efetch: "esearch_url db term retmax \<noteq> efetch_url ids"
  by (simp add: esearch_url_def efetch_url_def)

text \<open>
  C6. When the search request fails with a transport error, \<^verbatim>\<open>fetch_pmc_ids\<close>
  returns the empty list, and the run ends successfully having made the search request
  and printed two lines: no request to the metadata endpoint is made and no file is
  written.
\<close>

theorem search_failure_stops_run:
  assumes "requests_get w (esearch_url ''pmc'' term retmax) = RequestException"
  shows "fst (fetch_pmc_ids w term ''pmc'' retmax) = Inr []
       \<and> main w term retmax =
           (Inr (), [Get (esearch_url ''pmc'' term retmax), Print FailedIds, Print (Retrieved [])])
       \<and> (\<forall>e\<in>set (snd (main w term retmax)).
             (\<forall>ids. e \<noteq> Get (efetch_url ids)) \<and> (\<forall>f d. e \<noteq> WriteFile f d))"
proof -
  have p: "fetch_pmc_ids w term ''pmc'' retmax =
      (Inr [], [Get (esearch_url ''pmc'' term retmax), Print FailedIds])"
    using assms by (simp add: fetch_pmc_ids_def Let_def)
  have m: "main w term retmax =
      (Inr (), [Get (esearch_url ''pmc'' term retmax), Print FailedIds, Print (Retrieved [])])"
    by (simp add: main_def p Let_def)
  have "\<forall>e\<in>set (snd (main w term retmax)).
          (\<forall>ids. e \<noteq> Get (efetch_url ids)) \<and> (\<forall>f d. e \<noteq> WriteFile f d)"
    by (simp add: m esearch_ne_efetch)
  with p m show ?thesis by simp
qed

theorem search_failure_stops_run_witness:
  "requests_get ex_world_down (esearch_url ''pmc'' ''cancer'' 2) = RequestException
   \<and> main ex_world_down ''cancer'' 2 =
       (Inr (), [Get (esearch_url ''pmc'' ''cancer'' 2), Print FailedIds, Print (Retrieved [])])"
proof -
  have h: "requests_get ex_world_down (esearch_url ''pmc'' ''cancer'' 2) = RequestException"
    by (simp add: ex_world_down_def)
  from h search_failure_stops_run [OF h] show ?thesis by simp
qed

section \<open>Failure of a batch request\<close>

lemma batch_loop_fst_Cons:
  "fst (batch_loop w (b # bs)) =
     (case fst (batch_body w b) of
        Inl e \<Rightarrow> Inl e
      | Inr rs \<Rightarrow> (case fst (batch_loop w bs) of Inl e \<Rightarrow> Inl e | Inr rs' \<Rightarrow> Inr (rs @ rs')))"
  by (simp split: prod.splits sum.splits)

lemma batch_loop_fst_append:
  "fst (batch_loop w (xs @ ys)) =
     (case fst (batch_loop w xs) of
        Inl e \<Rightarrow> Inl e
      | Inr rs \<Rightarrow> (case fst (batch_loop w ys) of Inl e \<Rightarrow> Inl e | Inr rs' \<Rightarrow> Inr (rs @ rs')))"
proof (induction xs)
  case Nil
  show ?case by (simp split: sum.splits)
next
  case (Cons x xs)
  show ?case
    unfolding append_Cons batch_loop_fst_Cons Cons.IH
    by (simp split: sum.splits)
qed

lemma batch_loop_all_ok:
  "\<forall>b\<in>set bs. \<exists>rs. fst (batch_body w b) = Inr rs \<Longrightarrow>
   fst (batch_loop w bs) = Inr (concat (map (\<lambda>b. projr (fst (batch_body w b))) bs))"
proof (induction bs)
  case Nil
  show ?case by simp
next
  case (Cons b bs)
  from Cons.prems obtain rs where rs: "fst (batch_body w b) = Inr rs" by auto
  from Cons.prems have "fst (batch_loop w bs) = Inr (concat (map (\<lambda>b. projr (fst (batch_body w b))) bs))"
    by (intro Cons.IH) simp
  with rs show ?case
    unfolding batch_loop_fst_Cons by simp
qed

lemma failed_batch_body:
  assumes "join batch = Inr ids" and "requests_get w (efetch_url ids) = RequestException"
  shows "batch_body w batch = (Inr [], [Get (efetch_url ids), Print (FailedBatch batch)])"
  using assms by (simp add: batch_body_def Let_def)

text \<open>
  C7. A batch whose metadata request fails with a transport error adds no record, and
  the call returns exactly what the loop over the other batches alone returns: when each
  of them yields records, the concatenation of their records in order.
\<close>

theorem failed_batch_skipped:
  assumes "batches pmcids batch_size = Inr (bs1 @ batch # bs2)"
    and "join batch = Inr ids"
    and "requests_get w (efetch_url ids) = RequestException"
  shows "fst (batch_body w batch) = Inr []
       \<and> fst (fetch_article_details w pmcids batch_size) = fst (batch_loop w (bs1 @ bs2))
       \<and> ((\<forall>b\<in>set (bs1 @ bs2). \<exists>rs. fst (batch_body w b) = Inr rs) \<longrightarrow>
            fst (fetch_article_details w pmcids batch_size) =
              Inr (concat (map (\<lambda>b. projr (fst (batch_body w b))) (bs1 @ bs2))))"
proof -
  have b: "fst (batch_body w batch) = Inr []"
    by (simp add: failed_batch_body [OF assms(2,3)])
  have "fst (fetch_article_details w pmcids batch_size) = fst (batch_loop w (bs1 @ batch # bs2))"
    by (simp add: fetch_article_details_def assms(1))
  also have "\<dots> = fst (batch_loop w (bs1 @ bs2))"
    unfolding batch_loop_fst_append batch_loop_fst_Cons b
    by (simp split: sum.splits)
  finally have e: "fst (fetch_article_details w pmcids batch_size) = fst (batch_loop w (bs1 @ bs2))" .
  have "(\<forall>b\<in>set (bs1 @ bs2). \<exists>rs. fst (batch_body w b) = Inr rs) \<longrightarrow>
            fst (fetch_article_details w pmcids batch_size) =
              Inr (concat (map (\<lambda>b. projr (fst (batch_body w b))) (bs1 @ bs2)))"
    unfolding e using batch_loop_all_ok [of "bs1 @ bs2" w] by blast
  with b e show ?thesis by blast
qed

theorem failed_batch_skipped_witness:
  "batches [Some ''111'', Some ''222''] 1 = Inr ([] @ [Some ''111''] # [[Some ''222'']])
   \<and> requests_get ex_world (efetch_url ''111'') = RequestException
   \<and> fst (fetch_article_details ex_world [Some ''111'', Some ''222''] 1) = Inr [ex_record_222]"
proof -
  have h1: "batches [Some ''111'', Some ''222''] 1 = Inr ([] @ [Some ''111''] # [[Some ''222'']])"
    by (simp add: ex_batches_1)
  have h2: "join [Some ''111''] = Inr ''111''" by simp
  have h3: "requests_get ex_world (efetch_url ''111'') = RequestException"
    by (simp add: ex_world_def ex_get_efetch_111)
  have h4: "\<forall>b\<in>set ([] @ [[Some ''222'']]). \<exists>rs. fst (batch_body ex_world b) = Inr rs"
    by (simp add: ex_batch_222)
  from failed_batch_skipped [OF h1 h2 h3] h4
  have "fst (fetch_article_details ex_world [Some ''111'', Some ''222''] 1) =
      Inr (concat (map (\<lambda>b. projr (fst (batch_body ex_world b))) ([] @ [[Some ''222'']])))"
    by blast
  then have "fst (fetch_article_details ex_world [Some ''111'', Some ''222''] 1) = Inr [ex_record_222]"
    by (simp add: ex_batch_222)
  with h1 h3 show ?thesis by blast
qed

section \<open>Exit status\<close>








lemma ex_search_ids:
  "findall ''Id'' ex_search_doc = [Element ''Id'' [] (Some ''111'') [], Element ''Id'' [] (Some ''222'') []]"
  by (simp add: ex_search_doc_def findall_def descendants_def)





section \<open>The example run, end to end\<close>

lemma ex_fetch_pmc_ids:
  "fetch_pmc_ids ex_world ''cancer'' ''pmc'' 2 =
     (Inr [Some ''111'', Some ''222''], [Get (esearch_url ''pmc'' ''cancer'' 2)])"
  by (simp add: fetch_pmc_ids_def ex_world_def ex_get_esearch ex_search_ids)

lemma ex_main_run:
  "main ex_world ''cancer'' 2 =
     (Inr (),
      [Get (esearch_url ''pmc'' ''cancer'' 2),
       Print (Retrieved [Some ''111'', Some ''222'']),
       Get (efetch_url ''111,222''),
       Get (page_url (Some ''111'')),
       Get (page_url (Some ''222'')),
       WriteFile ''cancer_2_20240131_120000.json'' [ex_record_111, ex_record_222],
       Print (Saved ''cancer_2_20240131_120000.json'')])"
  by (simp add: main_def ex_fetch_pmc_ids ex_details_5 output_filename_def str_int_2 Let_def)
    (simp add: ex_world_def)

end
